theory Spec2Isabelle
  imports Main "HOL-Library.Word" "HOL-Library.Monad_Syntax"
begin

unbundle bit_operations_syntax

section \<open>Data model (UDPNode.h)\<close>

text \<open>
  The error codes and the address families of \<^verbatim>\<open>UDPNode.h\<close>. The header has no
  code for an empty queue and none for a failed checksum.
\<close>

datatype err_code =
    SUCCESS
  | SOCKET_CONN_FAILED
  | BIND_FAILED
  | RECVFROM_FAILED
  | SENDTO_FAILED
  | GETADDRINFO_FAILED
  | PARSE_TIME_FAILED
  | PARSE_MSG_FAILED
  | PARSE_CRC_FAILED

datatype ipFamily = ipv4 | ipv6

text \<open>
  A \<^verbatim>\<open>std::string\<close> is a sequence of bytes that knows its length; it may hold
  the byte 0. \<open>c_str\<close> is what a reader of the C string sees (\<^verbatim>\<open>strlen\<close>,
  \<^verbatim>\<open>std::string(const char*)\<close>, rapidjson's \<^verbatim>\<open>String(const Ch*)\<close>): the bytes
  before the first 0.
\<close>

type_synonym byte = "8 word"
type_synonym std_string = "byte list"

definition c_str :: "std_string \<Rightarrow> std_string" where
  "c_str s = takeWhile (\<lambda>c. c \<noteq> 0) s"

definition bytes_of :: "string \<Rightarrow> std_string" where
  "bytes_of s = map of_char s"

record rxDatagram =
  srcport :: "32 word"
  srcipaddr :: string
  time_stamp :: "64 word"
  msg :: std_string
  crc_checksum :: "32 word"
  jointhread :: bool

text \<open>
  Whether plain \<^verbatim>\<open>char\<close> is signed is the platform's choice (signed on x86 and
  x86-64 with gcc and clang, unsigned on ARM Linux). \<open>char_to_int\<close> is the integer
  promotion of a \<^verbatim>\<open>char\<close> operand to a 32-bit \<^verbatim>\<open>int\<close>, read as the bits of
  that \<^verbatim>\<open>int\<close>.
\<close>

datatype char_abi = SignedChar | UnsignedChar

definition char_to_int :: "char_abi \<Rightarrow> byte \<Rightarrow> 32 word" where
  "char_to_int abi c = (case abi of SignedChar \<Rightarrow> scast c | UnsignedChar \<Rightarrow> ucast c)"

text \<open>
  How a call ends when it does not return to its caller with a value: a failed
  \<^verbatim>\<open>RAPIDJSON_ASSERT\<close>, \<^verbatim>\<open>std::terminate\<close>, undefined behaviour (a null or
  uninitialised pointer read, \<^verbatim>\<open>front()\<close> of an empty queue), or a wait that never ends.
\<close>

datatype stop = AssertFails | Terminated | UndefinedBehaviour | BlocksForever

datatype 'a outcome = Returns 'a | Stops stop

section \<open>The frame (rapidjson)\<close>

text \<open>
  Modelled from the spec: the rapidjson \<^verbatim>\<open>Writer\<close> and \<^verbatim>\<open>Document\<close> (the library
  is included from \<^verbatim>\<open>../rapidjson\<close> and is not among the sources). The spec calls the
  wire format a self-describing structured frame with the fields \<^verbatim>\<open>Time\<close>, \<^verbatim>\<open>Msg\<close>,
  \<^verbatim>\<open>CRC\<close> and an optional \<^verbatim>\<open>Join_thr\<close>; a frame is modelled as the JSON value it
  denotes, the members of an object in the order written. What \<^verbatim>\<open>Writer\<close> writes is
  the value that \<^verbatim>\<open>Document::Parse\<close> reads back; a buffer that is not JSON text parses
  to \<open>JNull\<close> (the document is left a null value). \<open>JReal\<close> stands for a number with a
  fraction or an exponent, whose value this program never reads.
\<close>

datatype jvalue =
    JNull
  | JBool bool
  | JNumber int
  | JReal
  | JString std_string
  | JArray "jvalue list"
  | JObject "(string \<times> jvalue) list"

text \<open>
  Modelled from the spec: the accessors of a rapidjson value. Each asserts the type it
  reads (\<open>None\<close> is the failed assertion); a member is found by the first matching name.
\<close>

definition HasMember :: "jvalue \<Rightarrow> string \<Rightarrow> bool option" where
  "HasMember d name = (case d of JObject members \<Rightarrow> Some (map_of members name \<noteq> None) | _ \<Rightarrow> None)"

definition Member :: "jvalue \<Rightarrow> string \<Rightarrow> jvalue option" where
  "Member d name = (case d of JObject members \<Rightarrow> map_of members name | _ \<Rightarrow> None)"

definition GetUint64 :: "jvalue \<Rightarrow> 64 word option" where
  "GetUint64 v = (case v of JNumber i \<Rightarrow> (if 0 \<le> i \<and> i < 2 ^ 64 then Some (word_of_int i) else None) | _ \<Rightarrow> None)"

definition GetUint :: "jvalue \<Rightarrow> 32 word option" where
  "GetUint v = (case v of JNumber i \<Rightarrow> (if 0 \<le> i \<and> i < 2 ^ 32 then Some (word_of_int i) else None) | _ \<Rightarrow> None)"

definition GetString :: "jvalue \<Rightarrow> std_string option" where
  "GetString v = (case v of JString s \<Rightarrow> Some s | _ \<Rightarrow> None)"

definition GetBool :: "jvalue \<Rightarrow> bool option" where
  "GetBool v = (case v of JBool b \<Rightarrow> Some b | _ \<Rightarrow> None)"

section \<open>Encoding and decoding (UDPNode.cpp)\<close>

text \<open>
  The spec's checksum: the XOR of the bytes, each an unsigned 8-bit value.
\<close>

definition xorFold :: "std_string \<Rightarrow> byte" where
  "xorFold bytes = foldr (XOR) bytes 0"

text \<open>
  \<^verbatim>\<open>UDPNode::serialize\<close>. \<open>now\<close> is \<^verbatim>\<open>time(0)\<close> converted to \<^verbatim>\<open>unsigned long\<close>.
  The payload is written through \<^verbatim>\<open>msg.c_str()\<close>; the checksum is an
  \<^verbatim>\<open>unsigned char\<close> updated by \<^verbatim>\<open>crc_checksum ^= msg.c_str()[i]\<close> for
  \<^verbatim>\<open>i < strlen(msg.c_str())\<close>: both operands are promoted to \<^verbatim>\<open>int\<close> and the
  result is converted back to \<^verbatim>\<open>unsigned char\<close>.
\<close>

definition serialize_crc :: "char_abi \<Rightarrow> std_string \<Rightarrow> byte" where
  "serialize_crc abi s = fold (\<lambda>c crc_checksum. ucast ((ucast crc_checksum :: 32 word) XOR char_to_int abi c)) s 0"

definition serialize :: "char_abi \<Rightarrow> 64 word \<Rightarrow> std_string \<Rightarrow> bool \<Rightarrow> jvalue" where
  "serialize abi now msg' jointhread' =
     JObject
       ([(''Time'', JNumber (uint now)),
         (''Msg'', JString (c_str msg')),
         (''CRC'', JNumber (uint (ucast (serialize_crc abi (c_str msg')) :: 32 word)))]
        @ (if jointhread' then [(''Join_thr'', JBool True)] else []))"

text \<open>
  The sender's address as \<^verbatim>\<open>recvfrom\<close> fills it in: the port as stored (network
  byte order, never converted) and the address, here in the presentation form that
  \<^verbatim>\<open>inet_ntop\<close> prints. \<^verbatim>\<open>inet_ntop\<close> returns a null pointer when the text and
  its terminator do not fit the buffer.
\<close>

record sockaddr_storage =
  ss_family :: ipFamily
  sin_port :: "16 word"
  sin_addr :: string

definition getInPort :: "sockaddr_storage \<Rightarrow> 16 word" where
  "getInPort sa = sin_port sa"

definition inet_ntop :: "sockaddr_storage \<Rightarrow> nat \<Rightarrow> string option" where
  "inet_ntop sa len = (if length (sin_addr sa) < len then Some (sin_addr sa) else None)"

text \<open>
  \<^verbatim>\<open>UDPNode::parseDatagram\<close>. \<open>d\<close> is the document that \<^verbatim>\<open>d.Parse(buf)\<close>
  builds. The datagram is an in-out parameter: a field whose member is missing keeps the
  value it had. A missing member sets the error code and parsing goes on, so the last
  missing member names the error. Building a \<^verbatim>\<open>std::string\<close> from the null pointer
  of a failed \<^verbatim>\<open>inet_ntop\<close> (buffer \<^verbatim>\<open>char s[32]\<close>) is undefined.
\<close>

definition parseDatagram ::
    "sockaddr_storage \<Rightarrow> jvalue \<Rightarrow> rxDatagram \<Rightarrow> (err_code \<times> rxDatagram) outcome" where
  "parseDatagram their_addr d datagram0 =
     (case inet_ntop their_addr 32 of
        None \<Rightarrow> Stops UndefinedBehaviour
      | Some s \<Rightarrow>
         (case
            do {
              let error_code = SUCCESS;
              let datagram = datagram0\<lparr>srcport := ucast (getInPort their_addr), srcipaddr := s\<rparr>;
              hasTime \<leftarrow> HasMember d ''Time'';
              (error_code, datagram) \<leftarrow>
                (if hasTime
                 then do { v \<leftarrow> Member d ''Time''; t \<leftarrow> GetUint64 v;
                           Some (error_code, datagram\<lparr>time_stamp := t\<rparr>) }
                 else Some (PARSE_TIME_FAILED, datagram));
              hasMsg \<leftarrow> HasMember d ''Msg'';
              (error_code, datagram) \<leftarrow>
                (if hasMsg
                 then do { v \<leftarrow> Member d ''Msg''; m \<leftarrow> GetString v;
                           Some (error_code, datagram\<lparr>msg := c_str m\<rparr>) }
                 else Some (PARSE_MSG_FAILED, datagram));
              hasCRC \<leftarrow> HasMember d ''CRC'';
              (error_code, datagram) \<leftarrow>
                (if hasCRC
                 then do { v \<leftarrow> Member d ''CRC''; c \<leftarrow> GetUint v;
                           Some (error_code, datagram\<lparr>crc_checksum := c\<rparr>) }
                 else Some (PARSE_CRC_FAILED, datagram));
              hasJoin \<leftarrow> HasMember d ''Join_thr'';
              datagram \<leftarrow>
                (if hasJoin
                 then do { v \<leftarrow> Member d ''Join_thr''; b \<leftarrow> GetBool v;
                           Some (datagram\<lparr>jointhread := b\<rparr>) }
                 else Some (datagram\<lparr>jointhread := False\<rparr>));
              Some (error_code, datagram)
            }
          of None \<Rightarrow> Stops AssertFails
           | Some r \<Rightarrow> Returns r))"

text \<open>
  \<^verbatim>\<open>UDPNode::isDatagramValid\<close>: the accumulator is an \<^verbatim>\<open>unsigned int\<close> and
  \<^verbatim>\<open>crc_check_act ^= datagram.msg[i]\<close> promotes the \<^verbatim>\<open>char\<close> to \<^verbatim>\<open>int\<close> and
  converts it to \<^verbatim>\<open>unsigned int\<close>, over all \<^verbatim>\<open>msg.size()\<close> bytes.
\<close>

definition isDatagramValid :: "char_abi \<Rightarrow> rxDatagram \<Rightarrow> bool" where
  "isDatagramValid abi datagram =
     (fold (\<lambda>c crc_check_act. crc_check_act XOR char_to_int abi c) (msg datagram) (0 :: 32 word)
        = crc_checksum datagram)"

section \<open>The node and its receive queue (UDPNode.cpp)\<close>

text \<open>
  \<^verbatim>\<open>UDPNode::errorMsg\<close>.
\<close>

fun errorMsg :: "err_code \<Rightarrow> string" where
  "errorMsg SUCCESS = ''Success!''"
| "errorMsg SOCKET_CONN_FAILED = ''Socket creation failed''"
| "errorMsg BIND_FAILED = ''Bind failed''"
| "errorMsg RECVFROM_FAILED = ''Recvfrom function failed''"
| "errorMsg SENDTO_FAILED = ''Sendto function failed''"
| "errorMsg GETADDRINFO_FAILED = ''Getaddrinfo function failed''"
| "errorMsg PARSE_TIME_FAILED = ''Parsing time from buffer (to JSON) failed''"
| "errorMsg PARSE_MSG_FAILED = ''Parsing message from buffer (to JSON) failed''"
| "errorMsg PARSE_CRC_FAILED = ''Parsing CRC from buffer (to JSON) failed''"

text \<open>
  What the object does to the world outside it, in the order done: a line on
  \<^verbatim>\<open>std::cerr\<close>, a \<^verbatim>\<open>sendto\<close> call (descriptor, frame, destination) and a
  \<^verbatim>\<open>close\<close> call. The debug tracing on \<^verbatim>\<open>std::cout\<close> is left out.
\<close>

datatype effect = Cerr string | Sendto int jvalue sockaddr_storage | Close int

text \<open>
  The handle \<^verbatim>\<open>_rxthread\<close> together with where its thread stands. A thread that
  runs \<^verbatim>\<open>rxLoop\<close> waits only inside \<^verbatim>\<open>recvfrom\<close>, so between two arrivals it
  is either blocked there or has left the loop; the handle is joinable in both cases.
\<close>

datatype thread = NotAThread | InRecvfrom | Finished

text \<open>
  The members of \<^verbatim>\<open>class UDPNode\<close> (without the leading underscore), and \<open>effects\<close>,
  which is not a member. The queue's front is the head of the list. The mutex is not
  modelled: every queue operation is one step.
\<close>

record UDPNode =
  maxqueuesize :: "32 word"
  maxmessagesize :: "32 word"
  rxqueue :: "rxDatagram list"
  stoprecvthread :: bool
  rxthread :: thread
  listenipver :: ipFamily
  listenport :: int
  listensockfd :: int
  sendsockfd :: int
  debug :: bool
  effects :: "effect list"

definition cerr :: "string \<Rightarrow> UDPNode \<Rightarrow> UDPNode" where
  "cerr line n = n\<lparr>effects := effects n @ [Cerr line]\<rparr>"

text \<open>
  \<^verbatim>\<open>writeRxDatagramToQueue\<close>, \<^verbatim>\<open>rxDataAvailable\<close>, \<^verbatim>\<open>rxDataQueueSize\<close> (an
  \<^verbatim>\<open>int\<close>, given by its 32 bits) and \<^verbatim>\<open>readRxDatagramFromQueue\<close>, which calls
  \<^verbatim>\<open>front()\<close> and \<^verbatim>\<open>pop()\<close> without looking at the size.
\<close>

definition writeRxDatagramToQueue :: "rxDatagram \<Rightarrow> UDPNode \<Rightarrow> UDPNode" where
  "writeRxDatagramToQueue datagram n = n\<lparr>rxqueue := rxqueue n @ [datagram]\<rparr>"

definition rxDataAvailable :: "UDPNode \<Rightarrow> bool" where
  "rxDataAvailable n = (rxqueue n \<noteq> [])"

definition rxDataQueueSize :: "UDPNode \<Rightarrow> 32 word" where
  "rxDataQueueSize n = word_of_nat (length (rxqueue n))"

definition readRxDatagramFromQueue :: "UDPNode \<Rightarrow> (rxDatagram \<times> UDPNode) outcome" where
  "readRxDatagramFromQueue n =
     (case rxqueue n of
        [] \<Rightarrow> Stops UndefinedBehaviour
      | retval # rest \<Rightarrow> Returns (retval, n\<lparr>rxqueue := rest\<rparr>))"

section \<open>The receive loop (UDPNode.cpp)\<close>

text \<open>
  What one \<^verbatim>\<open>recvfrom\<close> call gives the loop: \<open>-1\<close>, no bytes, or a buffer from a
  sender, given by the document that \<^verbatim>\<open>Parse\<close> builds from it. \<^verbatim>\<open>recvfrom\<close>
  takes at most \<^verbatim>\<open>_maxmessagesize - 1\<close> bytes of a datagram; what is cut off is no
  longer JSON text and parses to \<open>JNull\<close>.
\<close>

datatype recv_result = RecvFailed | RecvNothing | RecvDatagram sockaddr_storage jvalue

datatype loop_ctl = Continue | Break err_code

text \<open>
  \<^verbatim>\<open>rxDatagram datagram;\<close> in the loop body: the strings are empty, the scalars are
  indeterminate. They are read only after \<^verbatim>\<open>parseDatagram\<close> has returned
  \<^verbatim>\<open>SUCCESS\<close>, which has assigned every field.
\<close>

definition new_rxDatagram :: rxDatagram where
  "new_rxDatagram =
     \<lparr>srcport = 0, srcipaddr = [], time_stamp = 0, msg = [], crc_checksum = 0, jointhread = False\<rparr>"

text \<open>
  The body of the \<^verbatim>\<open>while\<close> loop of \<^verbatim>\<open>UDPNode::rxLoop\<close> from the return of
  \<^verbatim>\<open>recvfrom\<close> on. A parse error is logged and leaves the loop by \<^verbatim>\<open>break\<close>.
\<close>

definition rxBody :: "char_abi \<Rightarrow> recv_result \<Rightarrow> UDPNode \<Rightarrow> (loop_ctl \<times> UDPNode) outcome" where
  "rxBody abi r n =
     (case r of
        RecvFailed \<Rightarrow> Returns (Break RECVFROM_FAILED, n)
      | RecvNothing \<Rightarrow> Returns (Continue, n)
      | RecvDatagram their_addr d \<Rightarrow>
          (case parseDatagram their_addr d new_rxDatagram of
             Stops f \<Rightarrow> Stops f
           | Returns (error_code, datagram) \<Rightarrow>
               if error_code \<noteq> SUCCESS
               then Returns (Break error_code, cerr (errorMsg error_code) n)
               else
                 let n = (if \<not> isDatagramValid abi datagram
                          then cerr ''rxloop: CRC Checksum invalid. Discarding... '' n else n);
                     n = (if maxqueuesize n \<le> rxDataQueueSize n
                          then cerr ''rxloop: Datagram Receive queue is full. Discarding incoming datagrams...'' n
                          else n);
                     n = (if jointhread datagram = False
                             \<and> length (rxqueue n) < unat (maxqueuesize n)
                             \<and> isDatagramValid abi datagram
                          then writeRxDatagramToQueue datagram n else n)
                 in Returns (Continue, n)))"

text \<open>
  How a run of the loop ends: it has left the \<^verbatim>\<open>while\<close> with this
  \<^verbatim>\<open>error_code\<close>, or it is blocked in \<^verbatim>\<open>recvfrom\<close> because nothing more
  arrives.
\<close>

datatype loop_end = Exited err_code | Waiting

text \<open>
  The code after the \<^verbatim>\<open>while\<close>: the error, if any, is logged (again).
\<close>

definition rxLoop_exit :: "err_code \<Rightarrow> UDPNode \<Rightarrow> (loop_end \<times> UDPNode) outcome" where
  "rxLoop_exit error_code n =
     Returns (Exited error_code, if error_code \<noteq> SUCCESS then cerr (errorMsg error_code) n else n)"

text \<open>
  \<^verbatim>\<open>UDPNode::rxLoop\<close> over the results of its \<^verbatim>\<open>recvfrom\<close> calls. \<open>rxRecv\<close> starts
  inside \<^verbatim>\<open>recvfrom\<close>, \<open>rxLoop\<close> at the loop test. \<^verbatim>\<open>recvfrom\<close> on the
  descriptor \<open>-1\<close> fails at once.
\<close>

fun rxRecv :: "char_abi \<Rightarrow> recv_result list \<Rightarrow> UDPNode \<Rightarrow> (loop_end \<times> UDPNode) outcome" where
  "rxRecv abi [] n =
     (if listensockfd n = -1 then rxLoop_exit RECVFROM_FAILED n else Returns (Waiting, n))"
| "rxRecv abi (r # rs) n =
     (case rxBody abi (if listensockfd n = -1 then RecvFailed else r) n of
        Stops f \<Rightarrow> Stops f
      | Returns (Break error_code, n') \<Rightarrow> rxLoop_exit error_code n'
      | Returns (Continue, n') \<Rightarrow>
          if stoprecvthread n' then rxLoop_exit SUCCESS n' else rxRecv abi rs n')"

definition rxLoop :: "char_abi \<Rightarrow> recv_result list \<Rightarrow> UDPNode \<Rightarrow> (loop_end \<times> UDPNode) outcome" where
  "rxLoop abi rs n = (if stoprecvthread n then rxLoop_exit SUCCESS n else rxRecv abi rs n)"

section \<open>Sending, starting and stopping (UDPNode.cpp)\<close>

text \<open>
  The operating system as \<^verbatim>\<open>tx\<close> sees it: the candidate list of
  \<^verbatim>\<open>getaddrinfo\<close> for a host, port and family (\<open>None\<close> when it returns non-zero),
  the descriptor \<^verbatim>\<open>socket\<close> returns for a candidate (\<open>-1\<close> on failure), the
  return value of \<^verbatim>\<open>sendto\<close>, and the clock.
\<close>

record addrinfo =
  ai_family :: ipFamily
  ai_addr :: sockaddr_storage

record os =
  os_getaddrinfo :: "string \<Rightarrow> int \<Rightarrow> ipFamily \<Rightarrow> addrinfo list option"
  os_socket :: "addrinfo \<Rightarrow> int"
  os_sendto :: "int \<Rightarrow> jvalue \<Rightarrow> sockaddr_storage \<Rightarrow> int"
  os_time :: "64 word"

text \<open>
  The \<^verbatim>\<open>for\<close> loop of \<^verbatim>\<open>tx\<close>: \<^verbatim>\<open>_sendsockfd\<close> is assigned at every
  candidate tried; the result is its last value and \<^verbatim>\<open>tx_p\<close> (\<open>None\<close> for the null
  pointer at the end of the list).
\<close>

fun tx_sockets :: "os \<Rightarrow> addrinfo list \<Rightarrow> int \<Rightarrow> int \<times> addrinfo option" where
  "tx_sockets sys [] fd = (fd, None)"
| "tx_sockets sys (tx_p # rest) fd =
     (if os_socket sys tx_p = -1 then tx_sockets sys rest (-1) else (os_socket sys tx_p, Some tx_p))"

text \<open>
  \<^verbatim>\<open>UDPNode::tx\<close>. After a failed \<^verbatim>\<open>getaddrinfo\<close> the code sets
  \<^verbatim>\<open>GETADDRINFO_FAILED\<close> and goes on to read \<^verbatim>\<open>txservinfo\<close>, which nothing has
  assigned. When no socket could be made it sets \<^verbatim>\<open>SOCKET_CONN_FAILED\<close> and goes on
  to \<^verbatim>\<open>sendto\<close>, which reads \<^verbatim>\<open>tx_p->ai_addr\<close> through the null pointer. Neither
  path has a \<^verbatim>\<open>return\<close>.
\<close>

definition tx ::
    "char_abi \<Rightarrow> os \<Rightarrow> int \<Rightarrow> ipFamily \<Rightarrow> string \<Rightarrow> std_string \<Rightarrow> bool \<Rightarrow> UDPNode
       \<Rightarrow> (err_code \<times> UDPNode) outcome" where
  "tx abi sys destport ver host msg' jointhread' n =
     (case os_getaddrinfo sys host destport ver of
        None \<Rightarrow> Stops UndefinedBehaviour
      | Some txservinfo \<Rightarrow>
          (case tx_sockets sys txservinfo (sendsockfd n) of
             (fd, None) \<Rightarrow> Stops UndefinedBehaviour
           | (fd, Some tx_p) \<Rightarrow>
               let n = n\<lparr>sendsockfd := fd\<rparr>;
                   s = serialize abi (os_time sys) msg' jointhread';
                   numbytes = os_sendto sys fd s (ai_addr tx_p);
                   n = n\<lparr>effects := effects n @ [Sendto fd s (ai_addr tx_p)]\<rparr>;
                   error_code = (if numbytes = -1 then SENDTO_FAILED else SUCCESS);
                   n = (if sendsockfd n \<noteq> -1
                        then n\<lparr>effects := effects n @ [Close (sendsockfd n)], sendsockfd := -1\<rparr>
                        else n)
               in Returns (error_code, n)))"

text \<open>
  \<^verbatim>\<open>UDPNode::startRxLoop\<close>. The new thread is constructed, and runs, before it is
  move-assigned to \<^verbatim>\<open>_rxthread\<close>; assigning to a joinable \<^verbatim>\<open>std::thread\<close> calls
  \<^verbatim>\<open>std::terminate\<close>. The new thread is taken to run up to its first
  \<^verbatim>\<open>recvfrom\<close> at once.
\<close>

definition startRxLoop :: "char_abi \<Rightarrow> UDPNode \<Rightarrow> UDPNode outcome" where
  "startRxLoop abi n =
     (let n = n\<lparr>stoprecvthread := False\<rparr> in
      if rxthread n \<noteq> NotAThread then Stops Terminated
      else
        (case rxLoop abi [] n of
           Stops f \<Rightarrow> Stops f
         | Returns (Waiting, n') \<Rightarrow> Returns (n'\<lparr>rxthread := InRecvfrom\<rparr>)
         | Returns (Exited error_code, n') \<Rightarrow> Returns (n'\<lparr>rxthread := Finished\<rparr>)))"

text \<open>
  The receive thread runs on what arrives at the listening socket; a thread that is not
  blocked in \<^verbatim>\<open>recvfrom\<close> takes nothing.
\<close>

definition receive :: "char_abi \<Rightarrow> recv_result list \<Rightarrow> UDPNode \<Rightarrow> UDPNode outcome" where
  "receive abi arrivals n =
     (case rxthread n of
        InRecvfrom \<Rightarrow>
          (case rxRecv abi arrivals n of
             Stops f \<Rightarrow> Stops f
           | Returns (Waiting, n') \<Rightarrow> Returns n'
           | Returns (Exited error_code, n') \<Rightarrow> Returns (n'\<lparr>rxthread := Finished\<rparr>))
      | _ \<Rightarrow> Returns n)"

text \<open>
  \<^verbatim>\<open>if(_rxthread.joinable()) _rxthread.join();\<close> where \<open>arrivals\<close> is what the
  listening socket receives while the caller waits. The join returns when the thread has
  left the loop; if the thread stays in \<^verbatim>\<open>recvfrom\<close>, it never does.
\<close>

definition join_rxthread :: "char_abi \<Rightarrow> recv_result list \<Rightarrow> UDPNode \<Rightarrow> UDPNode outcome" where
  "join_rxthread abi arrivals n =
     (if rxthread n = NotAThread then Returns n
      else
        (case receive abi arrivals n of
           Stops f \<Rightarrow> Stops f
         | Returns n' \<Rightarrow>
             if rxthread n' = Finished then Returns (n'\<lparr>rxthread := NotAThread\<rparr>)
             else Stops BlocksForever))"

text \<open>
  \<^verbatim>\<open>UDPNode::endRxLoop\<close>: set the flag, send the frame \<^verbatim>\<open>Goodbye\<close> with
  \<^verbatim>\<open>Join_thr\<close> to \<^verbatim>\<open>localhost\<close> at the listening port (the result of
  \<^verbatim>\<open>tx\<close> is ignored), join, close the listening socket. Nothing looks at whether
  a loop is running before the first two steps.
\<close>

definition endRxLoop :: "char_abi \<Rightarrow> os \<Rightarrow> recv_result list \<Rightarrow> UDPNode \<Rightarrow> UDPNode outcome" where
  "endRxLoop abi sys arrivals n =
     (let n = n\<lparr>stoprecvthread := True\<rparr> in
      case tx abi sys (listenport n) (listenipver n) ''localhost'' (bytes_of ''Goodbye'') True n of
        Stops f \<Rightarrow> Stops f
      | Returns (error_code, n) \<Rightarrow>
          (case join_rxthread abi arrivals n of
             Stops f \<Rightarrow> Stops f
           | Returns n \<Rightarrow>
               Returns (if listensockfd n \<noteq> -1
                        then n\<lparr>effects := effects n @ [Close (listensockfd n)], listensockfd := -1\<rparr>
                        else n)))"

section \<open>An example configuration\<close>

text \<open>
  The receiver of \<^verbatim>\<open>examples/UDPreceiver/main.cpp\<close>,
  \<^verbatim>\<open>UDPNode node(3490, ipv6, 1024, 5, true)\<close>, once its constructor has bound
  descriptor 3 (\<^verbatim>\<open>_sendsockfd\<close>, which the constructor does not set, is taken to be
  \<open>-1\<close>); a peer on the loopback address and one whose address has 37 characters in
  presentation form; and an operating system on which
  \<^verbatim>\<open>localhost\<close> and \<^verbatim>\<open>::1\<close> resolve to one candidate, no other name resolves,
  \<^verbatim>\<open>socket\<close> gives descriptor 4 and \<^verbatim>\<open>sendto\<close> sends 64 bytes.
\<close>

definition loopback :: sockaddr_storage where
  "loopback = \<lparr>ss_family = ipv6, sin_port = 3490, sin_addr = ''::1''\<rparr>"

definition long_peer :: sockaddr_storage where
  "long_peer =
     \<lparr>ss_family = ipv6, sin_port = 3490, sin_addr = ''2001:db8:85a3:1234:5678:8a2e:370:7334''\<rparr>"

definition receiver_node :: UDPNode where
  "receiver_node =
     \<lparr>maxqueuesize = 5, maxmessagesize = 1024, rxqueue = [], stoprecvthread = False,
      rxthread = NotAThread, listenipver = ipv6, listenport = 3490, listensockfd = 3,
      sendsockfd = -1, debug = True, effects = []\<rparr>"

definition example_os :: os where
  "example_os =
     \<lparr>os_getaddrinfo =
        (\<lambda>host port ver.
           if host = ''localhost'' \<or> host = ''::1''
           then Some [\<lparr>ai_family = ver,
                       ai_addr = \<lparr>ss_family = ver, sin_port = word_of_int port, sin_addr = ''::1''\<rparr>\<rparr>]
           else None),
      os_socket = (\<lambda>tx_p. 4),
      os_sendto = (\<lambda>fd s dest. 64),
      os_time = 1700000000\<rparr>"

text \<open>
  Frames and the datagrams they decode to: one without the \<^verbatim>\<open>Time\<close> member, the
  frame of the message \<^verbatim>\<open>hi\<close>, and the frame that \<^verbatim>\<open>endRxLoop\<close> sends. A node
  whose queue holds as many datagrams as its capacity.
\<close>

definition no_time_frame :: jvalue where
  "no_time_frame = JObject [(''Msg'', JString [0x68, 0x69]), (''CRC'', JNumber 1)]"

definition hi_frame :: jvalue where
  "hi_frame = serialize SignedChar 1700000000 [0x68, 0x69] False"

definition hi_datagram :: rxDatagram where
  "hi_datagram =
     \<lparr>srcport = 3490, srcipaddr = ''::1'', time_stamp = 1700000000,
      msg = [0x68, 0x69], crc_checksum = 1, jointhread = False\<rparr>"

definition goodbye_frame :: jvalue where
  "goodbye_frame = serialize SignedChar 1700000000 (bytes_of ''Goodbye'') True"

definition goodbye_datagram :: rxDatagram where
  "goodbye_datagram =
     \<lparr>srcport = 3490, srcipaddr = ''::1'', time_stamp = 1700000000,
      msg = bytes_of ''Goodbye'', crc_checksum = 93, jointhread = True\<rparr>"


text \<open>
  The receiver after \<^verbatim>\<open>startRxLoop\<close>, and after \<^verbatim>\<open>endRxLoop\<close> has sent its
  frame through descriptor 4 and closed both descriptors; and an operating system on
  which no socket can be made.
\<close>

definition running_node :: UDPNode where
  "running_node = receiver_node\<lparr>rxthread := InRecvfrom\<rparr>"

definition stopped_node :: UDPNode where
  "stopped_node =
     receiver_node\<lparr>stoprecvthread := True, listensockfd := -1,
                    effects := [Sendto 4 goodbye_frame loopback, Close 4, Close 3]\<rparr>"

definition no_socket_os :: os where
  "no_socket_os = example_os\<lparr>os_socket := (\<lambda>tx_p. -1)\<rparr>"

text \<open>
  The receiver with room for two datagrams; the frame of a message sent at the example
  time, and the datagram it decodes to when it comes from the loopback peer.
\<close>

definition small_node :: UDPNode where
  "small_node = receiver_node\<lparr>maxqueuesize := 2\<rparr>"

definition frame_of :: "std_string \<Rightarrow> jvalue" where
  "frame_of m = serialize SignedChar 1700000000 m False"

definition datagram_of :: "std_string \<Rightarrow> rxDatagram" where
  "datagram_of m =
     \<lparr>srcport = 3490, srcipaddr = ''::1'', time_stamp = 1700000000,
      msg = m, crc_checksum = ucast (xorFold m), jointhread = False\<rparr>"

text \<open>
  The number of bytes of a message with the top bit set: the bytes that are negative as
  a signed \<^verbatim>\<open>char\<close>.
\<close>

definition high_bytes :: "std_string \<Rightarrow> nat" where
  "high_bytes s = length (filter (\<lambda>c. 0x80 \<le> c) s)"

text \<open>
  A frame whose message is the byte \<^verbatim>\<open>0xFF\<close> and whose \<^verbatim>\<open>CRC\<close> member is
  4294967295, and the datagram it decodes to.
\<close>

definition forged_frame :: jvalue where
  "forged_frame =
     JObject [(''Time'', JNumber 1700000000), (''Msg'', JString [0xFF]), (''CRC'', JNumber 4294967295)]"

definition forged_datagram :: rxDatagram where
  "forged_datagram =
     \<lparr>srcport = 3490, srcipaddr = ''::1'', time_stamp = 1700000000,
      msg = [0xFF], crc_checksum = 0xFFFFFFFF, jointhread = False\<rparr>"

text \<open>
  How the queue of \<open>n'\<close> can differ from the queue of \<open>n\<close> after the loop has run:
  datagrams were appended, each with a false \<^verbatim>\<open>jointhread\<close> and accepted by
  \<^verbatim>\<open>isDatagramValid\<close>, and the length did not pass the capacity unless it already
  had.
\<close>

definition queue_grows :: "char_abi \<Rightarrow> UDPNode \<Rightarrow> UDPNode \<Rightarrow> bool" where
  "queue_grows abi n n' \<longleftrightarrow>
     maxqueuesize n' = maxqueuesize n
     \<and> (\<exists>added. rxqueue n' = rxqueue n @ added
           \<and> list_all (\<lambda>dg. jointhread dg = False \<and> isDatagramValid abi dg) added
           \<and> length (rxqueue n') \<le> max (length (rxqueue n)) (unat (maxqueuesize n)))"

section \<open>Facts about the checksum and the frame\<close>

lemma crc_step:
  "ucast ((ucast crc :: 32 word) XOR char_to_int abi c) = (crc XOR c :: 8 word)"
  by (cases abi; simp add: char_to_int_def; rule bit_word_eqI; auto simp: bit_simps)

lemma fold_xor_acc: "fold (\<lambda>c a. a XOR c) s (a :: byte) = a XOR xorFold s"
  by (induction s arbitrary: a) (simp_all add: xorFold_def ac_simps)

lemma serialize_crc_xorFold: "serialize_crc abi s = xorFold s"
  by (simp add: serialize_crc_def crc_step fold_xor_acc)

lemma c_str_NUL_free: "0 \<notin> set s \<Longrightarrow> c_str s = s"
  unfolding c_str_def by (rule takeWhile_eq_all_conv[THEN iffD2]) auto

lemma c_str_prefix: "0 \<notin> set pre \<Longrightarrow> c_str (pre @ 0 # post) = pre"
  unfolding c_str_def by (induction pre) auto

lemma c_str_idem: "c_str (c_str s) = c_str s"
  by (simp add: c_str_def)

lemma uint_ucast_byte: "uint (ucast (b :: byte) :: 32 word) = uint b"
  by (simp add: uint_up_ucast is_up)

lemma GetUint_byte: "GetUint (JNumber (uint (b :: byte))) = Some (ucast b)"
proof -
  have "uint b < 2 ^ 8" using uint_bounded [of b] by simp
  then have "uint b < 2 ^ 32" by simp
  moreover have "(word_of_int (uint b) :: 32 word) = ucast b" by simp
  ultimately show ?thesis by (simp add: GetUint_def)
qed

lemma GetUint64_uint: "GetUint64 (JNumber (uint (t :: 64 word))) = Some t"
  using uint_bounded [of t] by (simp add: GetUint64_def)

lemma serialize_frame:
  "serialize abi now m jt =
     JObject ([(''Time'', JNumber (uint now)), (''Msg'', JString (c_str m)),
               (''CRC'', JNumber (uint (xorFold (c_str m))))]
              @ (if jt then [(''Join_thr'', JBool True)] else []))"
  by (simp add: serialize_def serialize_crc_xorFold uint_ucast_byte)

lemma parse_serialize:
  "length (sin_addr a) < 32 \<Longrightarrow>
   parseDatagram a (serialize abi now m jt) d0 =
     Returns (SUCCESS, \<lparr>srcport = ucast (sin_port a), srcipaddr = sin_addr a, time_stamp = now,
        msg = c_str m, crc_checksum = ucast (xorFold (c_str m)), jointhread = jt\<rparr>)"
  by (cases jt)
     (simp_all add: parseDatagram_def serialize_frame inet_ntop_def HasMember_def Member_def
        GetUint64_uint GetString_def GetBool_def getInPort_def c_str_idem GetUint_byte)

lemma ucast_xor_byte: "(ucast (x XOR y :: byte) :: 32 word) = ucast x XOR ucast y"
  by (rule bit_word_eqI) (auto simp: bit_simps)

lemma fold_xor_ucast:
  "fold (\<lambda>c a. a XOR ucast c) s (a :: 32 word) = a XOR ucast (xorFold s)"
  by (induction s arbitrary: a) (simp_all add: xorFold_def ucast_xor_byte ac_simps)

text \<open>
  Where \<^verbatim>\<open>char\<close> is unsigned, \<^verbatim>\<open>isDatagramValid\<close> compares the unsigned XOR fold
  with the checksum.
\<close>

lemma isDatagramValid_unsigned:
  "isDatagramValid UnsignedChar d \<longleftrightarrow> ucast (xorFold (msg d)) = crc_checksum d"
  by (simp add: isDatagramValid_def char_to_int_def fold_xor_ucast)

lemma not_bit7: "c < 0x80 \<Longrightarrow> \<not> bit (c :: byte) 7"
proof
  assume lt: "c < 0x80" and b: "bit c 7"
  from lt have "unat c < 128" by (simp add: word_less_nat_alt)
  then have "unat c div 2 ^ 7 = 0" by simp
  then have "\<not> bit (unat c) 7" by (simp add: bit_iff_odd)
  with b show False by (simp add: bit_unsigned_iff)
qed

lemma scast_ascii: "c < 0x80 \<Longrightarrow> (scast (c :: byte) :: 32 word) = ucast c"
  apply (drule not_bit7)
  apply (rule bit_word_eqI)
  apply (auto simp: bit_simps min_def)
  subgoal for n using bit_imp_le_length [of c n] by (cases "n = 7") auto
  done

lemma char_to_int_ascii: "c < 0x80 \<Longrightarrow> char_to_int abi c = ucast c"
  by (cases abi) (simp_all add: char_to_int_def scast_ascii)

lemma fold_char_to_int_ascii:
  "\<forall>c\<in>set s. c < 0x80 \<Longrightarrow>
   fold (\<lambda>c a. a XOR char_to_int abi c) s a = fold (\<lambda>c a. a XOR ucast c) s a"
  by (induction s arbitrary: a) (simp_all add: char_to_int_ascii)

text \<open>
  On either platform the same holds for a message of 7-bit bytes.
\<close>

lemma isDatagramValid_ascii:
  "\<forall>c\<in>set (msg d). c < 0x80 \<Longrightarrow>
   isDatagramValid abi d \<longleftrightarrow> ucast (xorFold (msg d)) = crc_checksum d"
  by (simp add: isDatagramValid_def fold_char_to_int_ascii fold_xor_ucast)

lemma bit7_high: "0x80 \<le> c \<Longrightarrow> bit (c :: byte) 7"
proof (rule ccontr)
  assume ge: "0x80 \<le> c" and nb: "\<not> bit c 7"
  have "c = take_bit 7 c"
    apply (rule bit_word_eqI)
    subgoal for n using nb by (cases "n = 7") (auto simp: bit_simps)
    done
  then have "unat c = unat (take_bit 7 c)" by simp
  also have "\<dots> < 2 ^ 7" using take_bit_nat_less_exp [of 7 "unat c"] by (simp add: unsigned_take_bit_eq)
  finally have "unat c < 128" by simp
  with ge show False by (simp add: word_le_nat_alt)
qed

lemma not_mask8: "(NOT (mask 8) :: 32 word) = 0xFFFFFF00"
  by (simp add: mask_eq_exp_minus_1)

lemma scast_high: "0x80 \<le> c \<Longrightarrow> (scast (c :: byte) :: 32 word) = ucast c XOR 0xFFFFFF00"
  apply (drule bit7_high)
  apply (subst not_mask8 [symmetric])
  apply (rule bit_word_eqI)
  apply (auto simp: bit_simps min_def)
  subgoal for n using bit_imp_le_length [of c n] by simp
  subgoal for n by (cases "n = 7") auto
  done

lemma char_to_int_signed:
  "char_to_int SignedChar c = ucast c XOR (if 0x80 \<le> c then 0xFFFFFF00 else 0)"
proof (cases "0x80 \<le> c")
  case True
  then show ?thesis by (simp add: char_to_int_def scast_high)
next
  case False
  then have "c < 0x80" by simp
  from scast_ascii [OF this] False show ?thesis by (simp add: char_to_int_def)
qed

lemma fold_signed:
  "fold (\<lambda>c a. a XOR char_to_int SignedChar c) s (a :: 32 word) =
     a XOR ucast (xorFold s) XOR (if odd (high_bytes s) then 0xFFFFFF00 else 0)"
proof (induction s arbitrary: a)
  case Nil
  then show ?case by (simp add: xorFold_def high_bytes_def)
next
  case (Cons c s)
  have x: "ucast (xorFold (c # s)) = (ucast c XOR ucast (xorFold s) :: 32 word)"
    by (simp add: xorFold_def ucast_xor_byte)
  have h: "high_bytes (c # s) = (if 0x80 \<le> c then Suc (high_bytes s) else high_bytes s)"
    by (simp add: high_bytes_def)
  have "fold (\<lambda>c a. a XOR char_to_int SignedChar c) (c # s) a =
          (a XOR char_to_int SignedChar c) XOR ucast (xorFold s)
            XOR (if odd (high_bytes s) then 0xFFFFFF00 else 0)"
    by (simp add: Cons.IH)
  also have "\<dots> = a XOR ucast (xorFold (c # s))
            XOR (if odd (high_bytes (c # s)) then 0xFFFFFF00 else 0)"
    by (cases "0x80 \<le> c"; cases "odd (high_bytes s)")
       (simp_all add: char_to_int_signed x h ac_simps)
  finally show ?case .
qed

lemma xor_const_neq: "(w :: 32 word) \<noteq> w XOR 0xFFFFFF00"
proof
  assume "w = w XOR 0xFFFFFF00"
  then have "w XOR w = w XOR (w XOR 0xFFFFFF00)" by simp
  then show False by (simp flip: xor.assoc)
qed

text \<open>
  Where \<^verbatim>\<open>char\<close> is signed, every byte with the top bit set flips the upper 24 bits
  of the accumulator of \<^verbatim>\<open>isDatagramValid\<close>.
\<close>

lemma isDatagramValid_signed:
  "isDatagramValid SignedChar d \<longleftrightarrow>
     crc_checksum d = ucast (xorFold (msg d)) XOR (if odd (high_bytes (msg d)) then 0xFFFFFF00 else 0)"
  by (auto simp: isDatagramValid_def fold_signed)

section \<open>Claims about the codec\<close>

text \<open>
  C10. \<^verbatim>\<open>serialize\<close> reads the message as a C string: for a message with a 0 byte,
  the \<^verbatim>\<open>Msg\<close> field holds the bytes before the first 0 and the \<^verbatim>\<open>CRC\<close> field is
  the XOR fold of those bytes only; for a message without a 0 byte, both take the whole
  message.
\<close>

theorem serialize_truncates_at_NUL:
  "(0 \<notin> set pre \<longrightarrow>
      serialize abi now (pre @ 0 # post) jt =
        JObject ([(''Time'', JNumber (uint now)), (''Msg'', JString pre),
                  (''CRC'', JNumber (uint (xorFold pre)))]
                 @ (if jt then [(''Join_thr'', JBool True)] else [])))
   \<and> (0 \<notin> set m \<longrightarrow>
      serialize abi now m jt =
        JObject ([(''Time'', JNumber (uint now)), (''Msg'', JString m),
                  (''CRC'', JNumber (uint (xorFold m)))]
                 @ (if jt then [(''Join_thr'', JBool True)] else [])))"
  by (simp add: serialize_frame c_str_prefix c_str_NUL_free)

theorem serialize_truncates_at_NUL_witness:
  "0 \<notin> set [0x61 :: byte] \<and> 0 \<notin> set [0x61, 0x62 :: byte]
   \<and> serialize SignedChar 1700000000 ([0x61] @ 0 # [0x62]) False =
        JObject [(''Time'', JNumber 1700000000), (''Msg'', JString [0x61]), (''CRC'', JNumber 0x61)]
   \<and> serialize SignedChar 1700000000 [0x61, 0x62] False =
        JObject [(''Time'', JNumber 1700000000), (''Msg'', JString [0x61, 0x62]), (''CRC'', JNumber 3)]"
  using serialize_truncates_at_NUL [of "[0x61]" SignedChar 1700000000 "[0x62]" False "[0x61, 0x62]"]
  by (simp add: xorFold_def)

text \<open>
  C1, amended. For every message without a 0 byte, whatever its length, and every sender
  whose address text fits the 32-byte buffer of \<^verbatim>\<open>parseDatagram\<close>: decoding the frame
  that \<^verbatim>\<open>serialize\<close> makes of the message with the flag false returns
  \<^verbatim>\<open>SUCCESS\<close> and a datagram whose \<^verbatim>\<open>msg\<close> is the message, whose
  \<^verbatim>\<open>crc_checksum\<close> is the unsigned XOR fold of its bytes and whose
  \<^verbatim>\<open>jointhread\<close> is false.
\<close>

theorem roundtrip_without_NUL:
  assumes "0 \<notin> set m" and "length (sin_addr their_addr) < 32"
  shows "parseDatagram their_addr (serialize abi now m False) datagram =
           Returns (SUCCESS,
             \<lparr>srcport = ucast (sin_port their_addr), srcipaddr = sin_addr their_addr,
              time_stamp = now, msg = m, crc_checksum = ucast (xorFold m), jointhread = False\<rparr>)"
  using assms by (simp add: parse_serialize c_str_NUL_free)

theorem roundtrip_without_NUL_witness:
  "0 \<notin> set [0x68, 0x69 :: byte] \<and> length (sin_addr loopback) < 32
   \<and> parseDatagram loopback (serialize SignedChar 1700000000 [0x68, 0x69] False) new_rxDatagram =
         Returns (SUCCESS,
           \<lparr>srcport = 3490, srcipaddr = ''::1'', time_stamp = 1700000000,
            msg = [0x68, 0x69], crc_checksum = 1, jointhread = False\<rparr>)"
  using roundtrip_without_NUL [of "[0x68, 0x69]" loopback SignedChar 1700000000 new_rxDatagram]
  by (simp add: loopback_def xorFold_def)

text \<open>
  C1 as stated fails: the three bytes \<^verbatim>\<open>a\<close>, 0, \<^verbatim>\<open>b\<close> are a message shorter than
  1024, and decoding its frame gives the one-byte message \<^verbatim>\<open>a\<close>. And for a sender
  whose address text does not fit the buffer, decoding the frame of \<^verbatim>\<open>hi\<close> gives no
  datagram.
\<close>

theorem roundtrip_counterexample:
  "length [0x61, 0, 0x62 :: byte] < 1024
   \<and> parseDatagram loopback (serialize SignedChar 1700000000 [0x61, 0, 0x62] False) new_rxDatagram
       = Returns (SUCCESS, \<lparr>srcport = 3490, srcipaddr = ''::1'', time_stamp = 1700000000,
                            msg = [0x61], crc_checksum = 0x61, jointhread = False\<rparr>)
   \<and> [0x61 :: byte] \<noteq> [0x61, 0, 0x62]
   \<and> parseDatagram long_peer (serialize SignedChar 1700000000 [0x68, 0x69] False) new_rxDatagram
       = Stops UndefinedBehaviour"
  by (simp add: parse_serialize loopback_def c_str_def xorFold_def)
     (simp add: parseDatagram_def inet_ntop_def long_peer_def)

text \<open>
  C2, at the input where the code departs from it. Where \<^verbatim>\<open>char\<close> is signed, the
  one-byte message \<^verbatim>\<open>0xFF\<close> is encoded with checksum 255, which is its unsigned XOR
  fold, and decoded unchanged; \<^verbatim>\<open>isDatagramValid\<close> rejects the decoded datagram,
  because it folds the sign-extended byte into a 32-bit accumulator.
\<close>

theorem isDatagramValid_rejects_0xFF:
  "parseDatagram loopback (serialize SignedChar 1700000000 [0xFF] False) new_rxDatagram
       = Returns (SUCCESS, \<lparr>srcport = 3490, srcipaddr = ''::1'', time_stamp = 1700000000,
                            msg = [0xFF], crc_checksum = 0xFF, jointhread = False\<rparr>)
   \<and> ucast (xorFold [0xFF]) = (0xFF :: 32 word)
   \<and> \<not> isDatagramValid SignedChar \<lparr>srcport = 3490, srcipaddr = ''::1'', time_stamp = 1700000000,
                            msg = [0xFF], crc_checksum = 0xFF, jointhread = False\<rparr>"
  by (simp add: parse_serialize loopback_def c_str_def xorFold_def isDatagramValid_def char_to_int_def)

section \<open>Facts about the receive loop\<close>

lemma parseDatagram_codes:
  "parseDatagram a d d0 = Returns (e, dg) \<Longrightarrow>
   e \<in> {SUCCESS, PARSE_TIME_FAILED, PARSE_MSG_FAILED, PARSE_CRC_FAILED}"
  unfolding parseDatagram_def
  by (auto simp: Let_def split: option.splits if_splits bind_splits prod.splits)

lemma rxBody_success:
  "parseDatagram a d new_rxDatagram = Returns (SUCCESS, dg) \<Longrightarrow>
   \<exists>n'. rxBody abi (RecvDatagram a d) n = Returns (Continue, n')
     \<and> rxqueue n' = (if jointhread dg = False \<and> length (rxqueue n) < unat (maxqueuesize n)
                           \<and> isDatagramValid abi dg
                      then rxqueue n @ [dg] else rxqueue n)
     \<and> maxqueuesize n' = maxqueuesize n \<and> stoprecvthread n' = stoprecvthread n
     \<and> listensockfd n' = listensockfd n \<and> rxthread n' = rxthread n"
  by (simp add: rxBody_def Let_def cerr_def writeRxDatagramToQueue_def)

lemma rxBody_parse_error:
  "parseDatagram a d new_rxDatagram = Returns (e, dg) \<Longrightarrow> e \<noteq> SUCCESS \<Longrightarrow>
   rxBody abi (RecvDatagram a d) n = Returns (Break e, cerr (errorMsg e) n)"
  by (simp add: rxBody_def)

lemma rxBody_frame:
  "rxBody abi r n = Returns (ctl, n') \<Longrightarrow>
   maxqueuesize n' = maxqueuesize n \<and> stoprecvthread n' = stoprecvthread n
     \<and> listensockfd n' = listensockfd n \<and> rxthread n' = rxthread n"
  unfolding rxBody_def
  by (auto simp: Let_def cerr_def writeRxDatagramToQueue_def
      split: recv_result.splits outcome.splits prod.splits if_splits)

lemma rxBody_queue:
  "rxBody abi r n = Returns (ctl, n') \<Longrightarrow>
   rxqueue n' = rxqueue n
   \<or> (\<exists>a d dg. r = RecvDatagram a d \<and> parseDatagram a d new_rxDatagram = Returns (SUCCESS, dg)
         \<and> isDatagramValid abi dg \<and> length (rxqueue n) < unat (maxqueuesize n)
         \<and> jointhread dg = False \<and> rxqueue n' = rxqueue n @ [dg] \<and> ctl = Continue)"
  unfolding rxBody_def
  by (auto simp: Let_def cerr_def writeRxDatagramToQueue_def
      split: recv_result.splits outcome.splits prod.splits if_splits)

lemma queue_grows_refl: "queue_grows abi n n"
  by (simp add: queue_grows_def)

lemma queue_grows_same:
  "rxqueue n' = rxqueue n \<Longrightarrow> maxqueuesize n' = maxqueuesize n \<Longrightarrow> queue_grows abi n n'"
  by (simp add: queue_grows_def)

lemma queue_grows_trans:
  assumes "queue_grows abi n n1" and "queue_grows abi n1 n2"
  shows "queue_grows abi n n2"
proof -
  from assms(1) obtain a1 where 1: "maxqueuesize n1 = maxqueuesize n" "rxqueue n1 = rxqueue n @ a1"
      "list_all (\<lambda>dg. jointhread dg = False \<and> isDatagramValid abi dg) a1"
      "length (rxqueue n1) \<le> max (length (rxqueue n)) (unat (maxqueuesize n))"
    unfolding queue_grows_def by blast
  from assms(2) obtain a2 where 2: "maxqueuesize n2 = maxqueuesize n1" "rxqueue n2 = rxqueue n1 @ a2"
      "list_all (\<lambda>dg. jointhread dg = False \<and> isDatagramValid abi dg) a2"
      "length (rxqueue n2) \<le> max (length (rxqueue n1)) (unat (maxqueuesize n1))"
    unfolding queue_grows_def by blast
  have "rxqueue n2 = rxqueue n @ (a1 @ a2)" using 1(2) 2(2) by simp
  moreover have "list_all (\<lambda>dg. jointhread dg = False \<and> isDatagramValid abi dg) (a1 @ a2)"
    using 1(3) 2(3) by simp
  moreover have "length (rxqueue n2) \<le> max (length (rxqueue n)) (unat (maxqueuesize n))"
    using 1(1) 1(4) 2(4) by simp
  moreover have "maxqueuesize n2 = maxqueuesize n" using 1(1) 2(1) by simp
  ultimately show ?thesis unfolding queue_grows_def by blast
qed

lemma rxBody_queue_grows:
  assumes "rxBody abi r n = Returns (ctl, n')"
  shows "queue_grows abi n n'"
proof -
  have m: "maxqueuesize n' = maxqueuesize n" using rxBody_frame [OF assms] by simp
  from rxBody_queue [OF assms] show ?thesis
  proof
    assume "rxqueue n' = rxqueue n"
    with m show ?thesis by (simp add: queue_grows_same)
  next
    assume "\<exists>a d dg. r = RecvDatagram a d \<and> parseDatagram a d new_rxDatagram = Returns (SUCCESS, dg)
         \<and> isDatagramValid abi dg \<and> length (rxqueue n) < unat (maxqueuesize n)
         \<and> jointhread dg = False \<and> rxqueue n' = rxqueue n @ [dg] \<and> ctl = Continue"
    then obtain dg where "isDatagramValid abi dg" "length (rxqueue n) < unat (maxqueuesize n)"
        "jointhread dg = False" "rxqueue n' = rxqueue n @ [dg]" by blast
    with m show ?thesis unfolding queue_grows_def
      by (intro conjI exI [of _ "[dg]"]) simp_all
  qed
qed

lemma rxLoop_exit_queue_grows:
  "rxLoop_exit e n = Returns (le, n') \<Longrightarrow> queue_grows abi n n'"
  by (auto simp: rxLoop_exit_def cerr_def queue_grows_same split: if_splits)

lemma rxRecv_queue_grows:
  "rxRecv abi rs n = Returns (le, n') \<Longrightarrow> queue_grows abi n n'"
proof (induction rs arbitrary: n)
  case Nil
  then show ?case
    by (auto simp: queue_grows_refl rxLoop_exit_queue_grows split: if_splits)
next
  case (Cons r rs)
  let ?r = "if listensockfd n = -1 then RecvFailed else r"
  from Cons.prems obtain ctl n1 where body: "rxBody abi ?r n = Returns (ctl, n1)"
    by (auto split: outcome.splits prod.splits)
  then have g1: "queue_grows abi n n1" by (rule rxBody_queue_grows)
  have "queue_grows abi n1 n'"
  proof (cases ctl)
    case Continue
    show ?thesis
    proof (cases "stoprecvthread n1")
      case True
      with Cons.prems body Continue have "rxLoop_exit SUCCESS n1 = Returns (le, n')" by simp
      then show ?thesis by (rule rxLoop_exit_queue_grows)
    next
      case False
      with Cons.prems body Continue have "rxRecv abi rs n1 = Returns (le, n')" by simp
      then show ?thesis by (rule Cons.IH)
    qed
  next
    case (Break e)
    with Cons.prems body have "rxLoop_exit e n1 = Returns (le, n')" by simp
    then show ?thesis by (rule rxLoop_exit_queue_grows)
  qed
  with g1 show ?case by (rule queue_grows_trans)
qed

lemma rxLoop_queue_grows:
  "rxLoop abi rs n = Returns (le, n') \<Longrightarrow> queue_grows abi n n'"
  by (auto simp: rxLoop_def rxLoop_exit_queue_grows rxRecv_queue_grows split: if_splits)

text \<open>
  The example frames decoded, and the loop body run on them.
\<close>

lemma parse_no_time_frame:
  "parseDatagram loopback no_time_frame new_rxDatagram =
      Returns (PARSE_TIME_FAILED, \<lparr>srcport = 3490, srcipaddr = ''::1'', time_stamp = 0,
                            msg = [0x68, 0x69], crc_checksum = 1, jointhread = False\<rparr>)"
  by (simp add: parseDatagram_def no_time_frame_def loopback_def new_rxDatagram_def
        inet_ntop_def HasMember_def Member_def GetString_def GetUint_def getInPort_def c_str_def)

lemma parse_hi_frame:
  "parseDatagram loopback hi_frame new_rxDatagram = Returns (SUCCESS, hi_datagram)"
  by (simp add: hi_frame_def hi_datagram_def parse_serialize loopback_def c_str_def xorFold_def)

lemma parse_goodbye_frame:
  "parseDatagram loopback goodbye_frame new_rxDatagram = Returns (SUCCESS, goodbye_datagram)"
  by (simp add: goodbye_frame_def goodbye_datagram_def parse_serialize loopback_def c_str_def xorFold_def bytes_of_def)

lemma valid_hi_datagram: "isDatagramValid abi hi_datagram"
  by (simp add: isDatagramValid_ascii hi_datagram_def xorFold_def)

lemma valid_goodbye_datagram: "isDatagramValid abi goodbye_datagram"
  by (simp add: isDatagramValid_ascii goodbye_datagram_def xorFold_def bytes_of_def)


lemma rxBody_hi_receiver:
  "rxBody SignedChar (RecvDatagram loopback hi_frame) receiver_node =
        Returns (Continue, receiver_node\<lparr>rxqueue := [hi_datagram]\<rparr>)"
  by (simp add: rxBody_def parse_hi_frame valid_hi_datagram receiver_node_def Let_def
        cerr_def rxDataQueueSize_def writeRxDatagramToQueue_def)
     (simp add: hi_datagram_def)

lemma rxBody_goodbye_receiver:
  "rxBody SignedChar (RecvDatagram loopback goodbye_frame) receiver_node = Returns (Continue, receiver_node)"
  by (simp add: rxBody_def parse_goodbye_frame valid_goodbye_datagram receiver_node_def Let_def
        cerr_def rxDataQueueSize_def writeRxDatagramToQueue_def)
     (simp add: goodbye_datagram_def)


lemma parse_frame_of:
  "0 \<notin> set m \<Longrightarrow> parseDatagram loopback (frame_of m) new_rxDatagram = Returns (SUCCESS, datagram_of m)"
  by (simp add: frame_of_def datagram_of_def parse_serialize c_str_NUL_free loopback_def)

lemma valid_datagram_of:
  "\<forall>c\<in>set m. c < 0x80 \<Longrightarrow> isDatagramValid abi (datagram_of m)"
  by (simp add: isDatagramValid_ascii datagram_of_def)

lemma small_node_fields:
  "listensockfd small_node = 3" "stoprecvthread small_node = False"
  "maxqueuesize small_node = 2" "rxqueue small_node = []" "effects small_node = []"
  by (simp_all add: small_node_def receiver_node_def)

lemma rxBody_frame_of:
  assumes "0 \<notin> set m" and "\<forall>c\<in>set m. c < 0x80"
  shows "rxBody abi (RecvDatagram loopback (frame_of m)) n =
           Returns (Continue,
             if length (rxqueue n) < unat (maxqueuesize n)
             then writeRxDatagramToQueue (datagram_of m)
                    (if maxqueuesize n \<le> rxDataQueueSize n
                     then cerr ''rxloop: Datagram Receive queue is full. Discarding incoming datagrams...'' n
                     else n)
             else (if maxqueuesize n \<le> rxDataQueueSize n
                   then cerr ''rxloop: Datagram Receive queue is full. Discarding incoming datagrams...'' n
                   else n))"
proof -
  have j: "jointhread (datagram_of m) = False" by (simp add: datagram_of_def)
  show ?thesis
    unfolding rxBody_def
    by (simp add: parse_frame_of [OF assms(1)] valid_datagram_of [OF assms(2)] j Let_def cerr_def)
qed

lemma rxBody_decoded:
  assumes "parseDatagram a d new_rxDatagram = Returns (SUCCESS, dg)"
  shows "rxBody abi (RecvDatagram a d) n =
           Returns (Continue,
             n\<lparr>rxqueue := (if length (rxqueue n) < unat (maxqueuesize n) \<and> jointhread dg = False
                                 \<and> isDatagramValid abi dg
                              then rxqueue n @ [dg] else rxqueue n),
               effects := effects n
                 @ (if \<not> isDatagramValid abi dg
                    then [Cerr ''rxloop: CRC Checksum invalid. Discarding... ''] else [])
                 @ (if maxqueuesize n \<le> rxDataQueueSize n
                    then [Cerr ''rxloop: Datagram Receive queue is full. Discarding incoming datagrams...'']
                    else [])\<rparr>)"
  using assms
  by (simp add: rxBody_def Let_def cerr_def writeRxDatagramToQueue_def rxDataQueueSize_def)

lemma parse_forged_frame:
  "parseDatagram loopback forged_frame new_rxDatagram = Returns (SUCCESS, forged_datagram)"
  by (simp add: parseDatagram_def forged_frame_def forged_datagram_def loopback_def new_rxDatagram_def
        inet_ntop_def HasMember_def Member_def GetString_def GetUint_def GetUint64_def getInPort_def c_str_def)

lemma forged_valid_signed: "isDatagramValid SignedChar forged_datagram"
  by (simp add: isDatagramValid_def forged_datagram_def char_to_int_def)

lemma forged_invalid_unsigned: "\<not> isDatagramValid UnsignedChar forged_datagram"
  by (simp add: isDatagramValid_def forged_datagram_def char_to_int_def)

section \<open>Claims about the receive loop\<close>

text \<open>
  C3, amended. For every received buffer on which \<^verbatim>\<open>parseDatagram\<close> fails (it
  returns \<^verbatim>\<open>PARSE_TIME_FAILED\<close>, \<^verbatim>\<open>PARSE_MSG_FAILED\<close> or
  \<^verbatim>\<open>PARSE_CRC_FAILED\<close>), the receive loop logs the error, does not enqueue the
  datagram and leaves the loop by \<^verbatim>\<open>break\<close>, as it does when \<^verbatim>\<open>recvfrom\<close>
  fails: the loop ends with that error code, logs it once more, and takes none of the
  datagrams that arrive later.
\<close>

theorem parse_failure_leaves_loop:
  assumes "parseDatagram their_addr d new_rxDatagram = Returns (error_code, datagram)"
      and "error_code \<noteq> SUCCESS" and "\<not> stoprecvthread n" and "listensockfd n \<noteq> -1"
  shows "rxLoop abi (RecvDatagram their_addr d # rest) n =
           Returns (Exited error_code,
                    n\<lparr>effects := effects n @ [Cerr (errorMsg error_code), Cerr (errorMsg error_code)]\<rparr>)
         \<and> error_code \<in> {PARSE_TIME_FAILED, PARSE_MSG_FAILED, PARSE_CRC_FAILED}
         \<and> rxLoop abi (RecvFailed # rest) n =
             Returns (Exited RECVFROM_FAILED, n\<lparr>effects := effects n @ [Cerr (errorMsg RECVFROM_FAILED)]\<rparr>)"
  using assms parseDatagram_codes [OF assms(1)]
  by (simp add: rxLoop_def rxBody_parse_error rxLoop_exit_def cerr_def)
     (simp add: rxBody_def rxLoop_exit_def cerr_def)

theorem parse_failure_leaves_loop_witness:
  "parseDatagram loopback no_time_frame new_rxDatagram =
      Returns (PARSE_TIME_FAILED, \<lparr>srcport = 3490, srcipaddr = ''::1'', time_stamp = 0,
                            msg = [0x68, 0x69], crc_checksum = 1, jointhread = False\<rparr>)
   \<and> PARSE_TIME_FAILED \<noteq> SUCCESS \<and> \<not> stoprecvthread receiver_node \<and> listensockfd receiver_node \<noteq> -1
   \<and> rxLoop SignedChar [RecvDatagram loopback no_time_frame] receiver_node =
       Returns (Exited PARSE_TIME_FAILED,
         receiver_node\<lparr>effects := [Cerr ''Parsing time from buffer (to JSON) failed'',
                                   Cerr ''Parsing time from buffer (to JSON) failed'']\<rparr>)"
  using parse_failure_leaves_loop [of loopback no_time_frame PARSE_TIME_FAILED
      "\<lparr>srcport = 3490, srcipaddr = ''::1'', time_stamp = 0,
                            msg = [0x68, 0x69], crc_checksum = 1, jointhread = False\<rparr>" receiver_node SignedChar "[]"]
  by (simp add: parse_no_time_frame) (simp add: receiver_node_def)

text \<open>
  C3 as stated fails: a frame without \<^verbatim>\<open>Time\<close> ends the loop with
  \<^verbatim>\<open>PARSE_TIME_FAILED\<close>, and the well-formed frame after it, which the loop would
  have enqueued, is never taken.
\<close>

theorem parse_failure_continues_counterexample:
  "rxLoop SignedChar [RecvDatagram loopback no_time_frame, RecvDatagram loopback hi_frame]
      receiver_node =
    Returns (Exited PARSE_TIME_FAILED,
         receiver_node\<lparr>effects := [Cerr ''Parsing time from buffer (to JSON) failed'',
                                   Cerr ''Parsing time from buffer (to JSON) failed'']\<rparr>)
   \<and> rxLoop SignedChar [RecvDatagram loopback hi_frame] receiver_node =
    Returns (Waiting, receiver_node\<lparr>rxqueue := [hi_datagram]\<rparr>)"
  by (simp add: rxLoop_def rxBody_hi_receiver rxBody_parse_error [OF parse_no_time_frame]
        rxLoop_exit_def cerr_def)
     (simp add: receiver_node_def)




text \<open>
  C9, at the input where the code departs from it. Where \<^verbatim>\<open>char\<close> is signed, a
  frame whose message is the byte \<^verbatim>\<open>0xFF\<close> and whose \<^verbatim>\<open>CRC\<close> is 4294967295 is
  decoded and enqueued, although the XOR fold of its message is \<^verbatim>\<open>0xFF\<close> and not
  its checksum; where \<^verbatim>\<open>char\<close> is unsigned the same frame is logged and dropped.
\<close>

theorem forged_checksum_is_enqueued:
  "parseDatagram loopback forged_frame new_rxDatagram = Returns (SUCCESS, forged_datagram)
   \<and> ucast (xorFold (msg forged_datagram)) = (0xFF :: 32 word)
   \<and> crc_checksum forged_datagram = 0xFFFFFFFF
   \<and> rxBody SignedChar (RecvDatagram loopback forged_frame) receiver_node =
        Returns (Continue, receiver_node\<lparr>rxqueue := [forged_datagram]\<rparr>)
   \<and> rxBody UnsignedChar (RecvDatagram loopback forged_frame) receiver_node =
        Returns (Continue, receiver_node\<lparr>effects := [Cerr ''rxloop: CRC Checksum invalid. Discarding... '']\<rparr>)"
  by (simp add: parse_forged_frame rxBody_decoded [OF parse_forged_frame]
        forged_valid_signed forged_invalid_unsigned)
     (simp add: forged_datagram_def xorFold_def receiver_node_def rxDataQueueSize_def)

section \<open>Facts about sending, starting and stopping\<close>

lemma tx_sockets_Some:
  "tx_sockets sys cands fd0 = (fd, Some tx_p) \<Longrightarrow> fd = os_socket sys tx_p \<and> fd \<noteq> -1"
  by (induction cands arbitrary: fd0) (auto split: if_splits)

lemma tx_returns:
  assumes "os_getaddrinfo sys host destport ver = Some cands"
      and "tx_sockets sys cands (sendsockfd n) = (fd, Some tx_p)"
  shows "tx abi sys destport ver host m jt n =
           Returns (if os_sendto sys fd (serialize abi (os_time sys) m jt) (ai_addr tx_p) = -1
                    then SENDTO_FAILED else SUCCESS,
                    n\<lparr>sendsockfd := -1,
                      effects := effects n @ [Sendto fd (serialize abi (os_time sys) m jt) (ai_addr tx_p),
                                              Close fd]\<rparr>)"
  using assms tx_sockets_Some [OF assms(2)] by (simp add: tx_def Let_def)

lemma tx_Returns_D:
  assumes "tx abi sys destport ver host m jt n = Returns (e, n')"
  shows "\<exists>cands fd tx_p. os_getaddrinfo sys host destport ver = Some cands
           \<and> tx_sockets sys cands (sendsockfd n) = (fd, Some tx_p)"
  using assms by (auto simp: tx_def split: option.splits prod.splits)

lemma tx_frame:
  assumes "tx abi sys destport ver host m jt n = Returns (e, n')"
  shows "rxthread n' = rxthread n \<and> listensockfd n' = listensockfd n \<and> rxqueue n' = rxqueue n
         \<and> stoprecvthread n' = stoprecvthread n \<and> sendsockfd n' = -1
         \<and> e \<in> {SUCCESS, SENDTO_FAILED}"
proof -
  from tx_Returns_D [OF assms] obtain cands fd tx_p where
    "os_getaddrinfo sys host destport ver = Some cands"
    "tx_sockets sys cands (sendsockfd n) = (fd, Some tx_p)" by blast
  from tx_returns [OF this, of abi m jt] assms show ?thesis by auto
qed

lemma rxRecv_frame:
  "rxRecv abi rs n = Returns (le, n') \<Longrightarrow> listensockfd n' = listensockfd n"
proof (induction rs arbitrary: n)
  case Nil
  then show ?case by (auto simp: rxLoop_exit_def cerr_def split: if_splits)
next
  case (Cons r rs)
  let ?r = "if listensockfd n = -1 then RecvFailed else r"
  from Cons.prems obtain ctl n1 where body: "rxBody abi ?r n = Returns (ctl, n1)"
    by (auto split: outcome.splits prod.splits)
  then have f1: "listensockfd n1 = listensockfd n" using rxBody_frame by blast
  have "listensockfd n' = listensockfd n1"
  proof (cases ctl)
    case Continue
    show ?thesis
    proof (cases "stoprecvthread n1")
      case True
      with Cons.prems body Continue have "rxLoop_exit SUCCESS n1 = Returns (le, n')" by simp
      then show ?thesis by (auto simp: rxLoop_exit_def)
    next
      case False
      with Cons.prems body Continue have "rxRecv abi rs n1 = Returns (le, n')" by simp
      then show ?thesis by (rule Cons.IH)
    qed
  next
    case (Break e)
    with Cons.prems body have "rxLoop_exit e n1 = Returns (le, n')" by simp
    then show ?thesis by (auto simp: rxLoop_exit_def cerr_def split: if_splits)
  qed
  with f1 show ?case by simp
qed

lemma join_rxthread_Returns:
  "join_rxthread abi arrivals n = Returns n' \<Longrightarrow> rxthread n' = NotAThread"
  by (auto simp: join_rxthread_def split: if_splits outcome.splits)

lemma endRxLoop_Returns:
  assumes "endRxLoop abi sys arrivals n = Returns n'"
  shows "rxthread n' = NotAThread \<and> listensockfd n' = -1"
  using assms
  by (auto simp: endRxLoop_def Let_def split: outcome.splits prod.splits if_splits
           dest: join_rxthread_Returns)

lemma startRxLoop_closed_socket:
  assumes "rxthread n = NotAThread" and "listensockfd n = -1"
  shows "startRxLoop abi n =
           Returns (n\<lparr>stoprecvthread := False, rxthread := Finished,
                      effects := effects n @ [Cerr (errorMsg RECVFROM_FAILED)]\<rparr>)"
  using assms by (simp add: startRxLoop_def rxLoop_def rxLoop_exit_def cerr_def Let_def)

lemma startRxLoop_open_socket:
  assumes "rxthread n = NotAThread" and "listensockfd n \<noteq> -1"
  shows "startRxLoop abi n = Returns (n\<lparr>stoprecvthread := False, rxthread := InRecvfrom\<rparr>)"
  using assms by (simp add: startRxLoop_def rxLoop_def Let_def)

lemma startRxLoop_joinable:
  "rxthread n \<noteq> NotAThread \<Longrightarrow> startRxLoop abi n = Stops Terminated"
  by (simp add: startRxLoop_def Let_def)

lemma rxBody_goodbye:
  "\<not> maxqueuesize n \<le> rxDataQueueSize n \<Longrightarrow>
   rxBody abi (RecvDatagram loopback goodbye_frame) n = Returns (Continue, n)"
  by (simp add: rxBody_def parse_goodbye_frame valid_goodbye_datagram Let_def)
     (simp add: goodbye_datagram_def)

lemma example_os_localhost:
  "os_getaddrinfo example_os ''localhost'' 3490 ipv6 = Some [\<lparr>ai_family = ipv6, ai_addr = loopback\<rparr>]"
  by (simp add: example_os_def loopback_def)

lemma example_os_sockets:
  "tx_sockets example_os [\<lparr>ai_family = ipv6, ai_addr = loopback\<rparr>] fd0
     = (4, Some \<lparr>ai_family = ipv6, ai_addr = loopback\<rparr>)"
  by (simp add: example_os_def)

lemma tx_goodbye:
  "listenport n = 3490 \<Longrightarrow> listenipver n = ipv6 \<Longrightarrow>
   tx SignedChar example_os (listenport n) (listenipver n) ''localhost'' (bytes_of ''Goodbye'') True n =
     Returns (SUCCESS, n\<lparr>sendsockfd := -1,
                         effects := effects n @ [Sendto 4 goodbye_frame loopback, Close 4]\<rparr>)"
  using tx_returns [of example_os "''localhost''" 3490 ipv6 "[\<lparr>ai_family = ipv6, ai_addr = loopback\<rparr>]"
          n 4 "\<lparr>ai_family = ipv6, ai_addr = loopback\<rparr>" SignedChar "bytes_of ''Goodbye''" True]
  by (simp add: example_os_localhost example_os_sockets goodbye_frame_def)
     (simp add: example_os_def)

lemma startRxLoop_receiver: "startRxLoop SignedChar receiver_node = Returns running_node"
proof -
  have "rxthread receiver_node = NotAThread" "listensockfd receiver_node \<noteq> -1"
    by (simp_all add: receiver_node_def)
  from startRxLoop_open_socket [OF this, of SignedChar] show ?thesis
    by (simp add: running_node_def receiver_node_def)
qed

lemma endRxLoop_receiver: "endRxLoop SignedChar example_os [] receiver_node = Returns stopped_node"
proof -
  let ?n1 = "receiver_node\<lparr>stoprecvthread := True\<rparr>"
  have "listenport ?n1 = 3490" "listenipver ?n1 = ipv6"
    by (simp_all add: receiver_node_def)
  from tx_goodbye [OF this] show ?thesis
    by (simp add: endRxLoop_def join_rxthread_def Let_def receiver_node_def stopped_node_def)
qed

lemma endRxLoop_running:
  "endRxLoop SignedChar example_os [RecvDatagram loopback goodbye_frame] running_node =
     Returns stopped_node"
proof -
  let ?n1 = "running_node\<lparr>stoprecvthread := True\<rparr>"
  let ?n2 = "?n1\<lparr>sendsockfd := -1, effects := effects ?n1 @ [Sendto 4 goodbye_frame loopback, Close 4]\<rparr>"
  have "listenport ?n1 = 3490" "listenipver ?n1 = ipv6"
    by (simp_all add: receiver_node_def running_node_def)
  note t = tx_goodbye [OF this]
  have "\<not> maxqueuesize ?n2 \<le> rxDataQueueSize ?n2"
    by (simp add: receiver_node_def running_node_def rxDataQueueSize_def)
  note b = rxBody_goodbye [OF this, of SignedChar]
  from t b show ?thesis
    by (simp add: endRxLoop_def join_rxthread_def receive_def Let_def rxLoop_exit_def
          receiver_node_def running_node_def stopped_node_def)
qed

section \<open>Claims about the queue, sending, starting and stopping\<close>

text \<open>
  C5, amended. When data is buffered (\<^verbatim>\<open>rxDataAvailable\<close>),
  \<^verbatim>\<open>readRxDatagramFromQueue\<close> removes and returns the oldest datagram, and a datagram
  written later does not overtake it. The code has no empty-queue error and makes no
  check: callers test \<^verbatim>\<open>rxDataAvailable\<close> first, as the example receiver does.
\<close>

theorem read_returns_oldest:
  assumes "rxDataAvailable n"
  shows "\<exists>retval rest. rxqueue n = retval # rest
           \<and> readRxDatagramFromQueue n = Returns (retval, n\<lparr>rxqueue := rest\<rparr>)
           \<and> readRxDatagramFromQueue (writeRxDatagramToQueue datagram n) =
                 Returns (retval, n\<lparr>rxqueue := rest @ [datagram]\<rparr>)"
  using assms
  by (cases "rxqueue n")
     (simp_all add: rxDataAvailable_def readRxDatagramFromQueue_def writeRxDatagramToQueue_def)

theorem read_returns_oldest_witness:
  "rxDataAvailable (receiver_node\<lparr>rxqueue := [hi_datagram]\<rparr>)
   \<and> readRxDatagramFromQueue (receiver_node\<lparr>rxqueue := [hi_datagram]\<rparr>) =
        Returns (hi_datagram, receiver_node)
   \<and> readRxDatagramFromQueue (writeRxDatagramToQueue goodbye_datagram (receiver_node\<lparr>rxqueue := [hi_datagram]\<rparr>)) =
        Returns (hi_datagram, receiver_node\<lparr>rxqueue := [goodbye_datagram]\<rparr>)"
  using read_returns_oldest [of "receiver_node\<lparr>rxqueue := [hi_datagram]\<rparr>" goodbye_datagram]
  by (simp add: rxDataAvailable_def readRxDatagramFromQueue_def writeRxDatagramToQueue_def receiver_node_def)

text \<open>
  C5 as stated fails: with nothing buffered the call is \<^verbatim>\<open>front()\<close> on an empty
  \<^verbatim>\<open>std::queue\<close>, which is undefined, not an error value.
\<close>

theorem read_empty_queue_counterexample:
  "\<not> rxDataAvailable receiver_node
   \<and> readRxDatagramFromQueue receiver_node = Stops UndefinedBehaviour"
  by (simp add: rxDataAvailable_def readRxDatagramFromQueue_def receiver_node_def)

text \<open>
  C6, amended. \<^verbatim>\<open>startRxLoop\<close> called while \<^verbatim>\<open>_rxthread\<close> is joinable
  terminates the program; called with no thread and the listening socket open, it
  clears the stop flag and leaves a receive thread blocked in \<^verbatim>\<open>recvfrom\<close>. After
  \<^verbatim>\<open>endRxLoop\<close> has returned, the thread has been joined and the listening socket is
  closed; a later \<^verbatim>\<open>startRxLoop\<close> returns, but its loop fails at the first
  \<^verbatim>\<open>recvfrom\<close> and ends at once with \<^verbatim>\<open>RECVFROM_FAILED\<close>.
\<close>

theorem startRxLoop_lifecycle:
  "(rxthread n \<noteq> NotAThread \<longrightarrow> startRxLoop abi n = Stops Terminated)
   \<and> (rxthread m = NotAThread \<and> listensockfd m \<noteq> -1 \<longrightarrow>
         startRxLoop abi m = Returns (m\<lparr>stoprecvthread := False, rxthread := InRecvfrom\<rparr>))
   \<and> (endRxLoop abi sys arrivals k = Returns k' \<longrightarrow>
         rxthread k' = NotAThread \<and> listensockfd k' = -1
         \<and> startRxLoop abi k' =
               Returns (k'\<lparr>stoprecvthread := False, rxthread := Finished,
                          effects := effects k' @ [Cerr (errorMsg RECVFROM_FAILED)]\<rparr>))"
  using endRxLoop_Returns [of abi sys arrivals k k']
  by (auto simp: startRxLoop_joinable startRxLoop_open_socket startRxLoop_closed_socket)

theorem startRxLoop_lifecycle_witness:
  "rxthread running_node \<noteq> NotAThread
   \<and> startRxLoop SignedChar running_node = Stops Terminated
   \<and> rxthread receiver_node = NotAThread \<and> listensockfd receiver_node \<noteq> -1
   \<and> startRxLoop SignedChar receiver_node = Returns running_node
   \<and> endRxLoop SignedChar example_os [RecvDatagram loopback goodbye_frame] running_node
        = Returns stopped_node
   \<and> rxthread stopped_node = NotAThread \<and> listensockfd stopped_node = -1
   \<and> startRxLoop SignedChar stopped_node =
        Returns (stopped_node\<lparr>stoprecvthread := False, rxthread := Finished,
                   effects := effects stopped_node @ [Cerr ''Recvfrom function failed'']\<rparr>)"
  using startRxLoop_lifecycle [of running_node SignedChar receiver_node example_os
          "[RecvDatagram loopback goodbye_frame]" running_node stopped_node]
  by (simp add: endRxLoop_running startRxLoop_receiver)
     (simp add: receiver_node_def running_node_def stopped_node_def)

text \<open>
  C6 as stated fails: the second \<^verbatim>\<open>startRxLoop\<close> on a running receiver ends in
  \<^verbatim>\<open>std::terminate\<close>, and the receiver started again after \<^verbatim>\<open>endRxLoop\<close> has a
  finished thread and a logged \<^verbatim>\<open>RECVFROM_FAILED\<close>.
\<close>

theorem start_while_running_counterexample:
  "startRxLoop SignedChar receiver_node = Returns running_node
   \<and> rxthread running_node = InRecvfrom
   \<and> startRxLoop SignedChar running_node = Stops Terminated
   \<and> endRxLoop SignedChar example_os [RecvDatagram loopback goodbye_frame] running_node
        = Returns stopped_node
   \<and> startRxLoop SignedChar stopped_node =
        Returns (stopped_node\<lparr>stoprecvthread := False, rxthread := Finished,
                   effects := effects stopped_node @ [Cerr ''Recvfrom function failed'']\<rparr>)"
  by (simp add: startRxLoop_receiver endRxLoop_running)
     (simp add: startRxLoop_joinable startRxLoop_closed_socket
        running_node_def stopped_node_def receiver_node_def)

text \<open>
  C7, amended. When \<^verbatim>\<open>localhost\<close> resolves at the listening port and
  \<^verbatim>\<open>socket\<close> succeeds for one of the candidates, \<^verbatim>\<open>endRxLoop\<close> called when no
  receive thread is joinable is not a no-op: it sets the stop flag, sends the
  \<^verbatim>\<open>Goodbye\<close> frame with \<^verbatim>\<open>Join_thr\<close> to the listening port through a socket of
  its own, which it closes, skips the join, and closes the listening socket if it is
  open, leaving both descriptors \<open>-1\<close>; every other member stays as it was.
\<close>

theorem endRxLoop_not_running:
  assumes "rxthread n = NotAThread"
      and "os_getaddrinfo sys ''localhost'' (listenport n) (listenipver n) = Some cands"
      and "tx_sockets sys cands (sendsockfd n) = (fd, Some tx_p)"
  shows "endRxLoop abi sys arrivals n =
           Returns (n\<lparr>stoprecvthread := True, sendsockfd := -1, listensockfd := -1,
                      effects := effects n
                        @ [Sendto fd (serialize abi (os_time sys) (bytes_of ''Goodbye'') True) (ai_addr tx_p),
                           Close fd]
                        @ (if listensockfd n \<noteq> -1 then [Close (listensockfd n)] else [])\<rparr>)"
proof -
  let ?n1 = "n\<lparr>stoprecvthread := True\<rparr>"
  have "tx_sockets sys cands (sendsockfd ?n1) = (fd, Some tx_p)" using assms(3) by simp
  from tx_returns [of sys "''localhost''" "listenport n" "listenipver n" cands ?n1 fd tx_p abi
         "bytes_of ''Goodbye''" True, OF assms(2) this]
  show ?thesis using assms(1)
    by (simp add: endRxLoop_def join_rxthread_def Let_def)
qed

theorem endRxLoop_not_running_witness:
  "rxthread receiver_node = NotAThread
   \<and> os_getaddrinfo example_os ''localhost'' (listenport receiver_node) (listenipver receiver_node)
        = Some [\<lparr>ai_family = ipv6, ai_addr = loopback\<rparr>]
   \<and> tx_sockets example_os [\<lparr>ai_family = ipv6, ai_addr = loopback\<rparr>] (sendsockfd receiver_node)
        = (4, Some \<lparr>ai_family = ipv6, ai_addr = loopback\<rparr>)
   \<and> endRxLoop SignedChar example_os [] receiver_node = Returns stopped_node"
  using endRxLoop_not_running [of receiver_node example_os "[\<lparr>ai_family = ipv6, ai_addr = loopback\<rparr>]"
          4 "\<lparr>ai_family = ipv6, ai_addr = loopback\<rparr>" SignedChar "[]"]
  by (simp add: receiver_node_def example_os_def loopback_def stopped_node_def goodbye_frame_def)

text \<open>
  C7 as stated fails: on the receiver that was never started, \<^verbatim>\<open>endRxLoop\<close> sends a
  datagram, closes the listening descriptor 3 and sets the flag.
\<close>

theorem endRxLoop_idle_counterexample:
  "rxthread receiver_node = NotAThread
   \<and> endRxLoop SignedChar example_os [] receiver_node = Returns stopped_node
   \<and> stopped_node \<noteq> receiver_node
   \<and> stoprecvthread stopped_node \<and> listensockfd stopped_node = -1
   \<and> effects stopped_node = [Sendto 4 goodbye_frame loopback, Close 4, Close 3]"
  by (simp add: endRxLoop_receiver) (simp add: receiver_node_def stopped_node_def)

text \<open>
  C8, at the inputs where the code departs from it. For a host that does not resolve,
  and on a system where no socket can be made, \<^verbatim>\<open>tx\<close> does not return
  \<^verbatim>\<open>GETADDRINFO_FAILED\<close> or \<^verbatim>\<open>SOCKET_CONN_FAILED\<close>: it goes on and reads through
  an unassigned or null pointer.
\<close>

theorem tx_failure_faults:
  "os_getaddrinfo example_os ''no.such.host'' 3490 ipv6 = None
   \<and> tx SignedChar example_os 3490 ipv6 ''no.such.host'' [0x68, 0x69] False receiver_node
        = Stops UndefinedBehaviour
   \<and> os_socket no_socket_os \<lparr>ai_family = ipv6, ai_addr = loopback\<rparr> = -1
   \<and> tx SignedChar no_socket_os 3490 ipv6 ''::1'' [0x68, 0x69] False receiver_node
        = Stops UndefinedBehaviour"
  by (simp add: tx_def example_os_def no_socket_os_def)

section \<open>Further properties\<close>

text \<open>
  Where plain \<^verbatim>\<open>char\<close> is unsigned, \<^verbatim>\<open>isDatagramValid\<close> accepts a datagram
  exactly when its checksum is the unsigned XOR fold of its message.
\<close>

theorem isDatagramValid_unsigned_char_iff:
  "isDatagramValid UnsignedChar d \<longleftrightarrow> crc_checksum d = ucast (xorFold (msg d))"
  by (auto simp: isDatagramValid_unsigned)

text \<open>
  Where plain \<^verbatim>\<open>char\<close> is signed, \<^verbatim>\<open>isDatagramValid\<close> accepts a datagram
  exactly when its checksum is the unsigned XOR fold of its message with the upper 24
  bits set if the message has an odd number of bytes that are \<^verbatim>\<open>0x80\<close> or more.
\<close>

theorem isDatagramValid_signed_char_iff:
  "isDatagramValid SignedChar d \<longleftrightarrow>
     crc_checksum d = ucast (xorFold (msg d)) XOR (if odd (high_bytes (msg d)) then 0xFFFFFF00 else 0)"
  by (rule isDatagramValid_signed)

text \<open>
  The checksum that \<^verbatim>\<open>serialize\<close> computes is the unsigned XOR fold of the
  bytes, whether plain \<^verbatim>\<open>char\<close> is signed or not.
\<close>

theorem serialize_checksum_is_unsigned_fold:
  "serialize_crc SignedChar s = xorFold s \<and> serialize_crc UnsignedChar s = xorFold s"
  by (simp add: serialize_crc_xorFold)

text \<open>
  The frame that \<^verbatim>\<open>serialize\<close> makes of a message without a 0 byte decodes to
  a datagram that \<^verbatim>\<open>isDatagramValid\<close> accepts where \<^verbatim>\<open>char\<close> is unsigned;
  where \<^verbatim>\<open>char\<close> is signed it is accepted exactly when the message has an even
  number of bytes that are \<^verbatim>\<open>0x80\<close> or more.
\<close>

theorem own_frame_validates_iff_even_high_bytes:
  assumes "0 \<notin> set m" and "length (sin_addr their_addr) < 32"
  shows "\<exists>datagram. parseDatagram their_addr (serialize abi now m False) new_rxDatagram
                     = Returns (SUCCESS, datagram)
           \<and> isDatagramValid UnsignedChar datagram
           \<and> (isDatagramValid SignedChar datagram \<longleftrightarrow> even (high_bytes m))"
  using assms xor_const_neq [of "ucast (xorFold m)"]
  by (simp add: parse_serialize c_str_NUL_free isDatagramValid_unsigned isDatagramValid_signed)

theorem own_frame_validates_iff_even_high_bytes_witness:
  "0 \<notin> set [0xC3, 0xA9 :: byte] \<and> length (sin_addr loopback) < 32
   \<and> high_bytes [0xC3, 0xA9] = 2 \<and> high_bytes [0xFF] = 1
   \<and> isDatagramValid SignedChar
        \<lparr>srcport = 3490, srcipaddr = ''::1'', time_stamp = 1700000000,
         msg = [0xC3, 0xA9], crc_checksum = 0x6A, jointhread = False\<rparr>"
  using own_frame_validates_iff_even_high_bytes [of "[0xC3, 0xA9]" loopback SignedChar 1700000000]
  by (simp add: parse_serialize c_str_def xorFold_def high_bytes_def loopback_def
        isDatagramValid_def char_to_int_def)

text \<open>
  Whenever \<^verbatim>\<open>tx\<close> returns, its code is \<^verbatim>\<open>SUCCESS\<close> or
  \<^verbatim>\<open>SENDTO_FAILED\<close> (the latter exactly when \<^verbatim>\<open>sendto\<close> returned \<open>-1\<close>), it
  has made one \<^verbatim>\<open>sendto\<close> call with the frame of the message and has closed the
  socket it sent through.
\<close>

theorem tx_returns_only_sendto_codes:
  assumes "tx abi sys destport ver host m jt n = Returns (error_code, n')"
  shows "error_code \<in> {SUCCESS, SENDTO_FAILED}
         \<and> (\<exists>fd dest. effects n' = effects n @ [Sendto fd (serialize abi (os_time sys) m jt) dest, Close fd]
               \<and> (error_code = SENDTO_FAILED
                     \<longleftrightarrow> os_sendto sys fd (serialize abi (os_time sys) m jt) dest = -1))
         \<and> sendsockfd n' = -1"
proof -
  from tx_Returns_D [OF assms] obtain cands fd tx_p where
    "os_getaddrinfo sys host destport ver = Some cands"
    "tx_sockets sys cands (sendsockfd n) = (fd, Some tx_p)" by blast
  from tx_returns [OF this, of abi m jt] assms show ?thesis by auto
qed

theorem tx_returns_only_sendto_codes_witness:
  "tx SignedChar example_os 3490 ipv6 ''::1'' [0x68, 0x69] False receiver_node =
     Returns (SUCCESS, receiver_node\<lparr>effects := [Sendto 4 hi_frame loopback, Close 4]\<rparr>)
   \<and> tx SignedChar (example_os\<lparr>os_sendto := (\<lambda>fd s dest. -1)\<rparr>) 3490 ipv6 ''::1'' [0x68, 0x69] False
        receiver_node =
     Returns (SENDTO_FAILED, receiver_node\<lparr>effects := [Sendto 4 hi_frame loopback, Close 4]\<rparr>)"
  using tx_returns_only_sendto_codes [of SignedChar example_os 3490 ipv6 "''::1''" "[0x68, 0x69]" False
          receiver_node SUCCESS "receiver_node\<lparr>effects := [Sendto 4 hi_frame loopback, Close 4]\<rparr>"]
  by (simp add: tx_def example_os_def receiver_node_def hi_frame_def loopback_def Let_def)

text \<open>
  With room for two datagrams and three messages received, the queue holds the
  first two in the order sent, two reads return them in that order, and the third is
  lost.
\<close>

theorem third_message_is_lost:
  "rxLoop SignedChar
      [RecvDatagram loopback (frame_of [0x61]), RecvDatagram loopback (frame_of [0x62]),
       RecvDatagram loopback (frame_of [0x63])] small_node =
     Returns (Waiting,
       small_node\<lparr>rxqueue := [datagram_of [0x61], datagram_of [0x62]],
                   effects := [Cerr ''rxloop: Datagram Receive queue is full. Discarding incoming datagrams...'']\<rparr>)
   \<and> rxDataQueueSize (small_node\<lparr>rxqueue := [datagram_of [0x61], datagram_of [0x62]]\<rparr>) = 2
   \<and> readRxDatagramFromQueue (small_node\<lparr>rxqueue := [datagram_of [0x61], datagram_of [0x62]]\<rparr>) =
       Returns (datagram_of [0x61], small_node\<lparr>rxqueue := [datagram_of [0x62]]\<rparr>)
   \<and> readRxDatagramFromQueue (small_node\<lparr>rxqueue := [datagram_of [0x62]]\<rparr>) =
       Returns (datagram_of [0x62], small_node\<lparr>rxqueue := []\<rparr>)
   \<and> \<not> rxDataAvailable (small_node\<lparr>rxqueue := []\<rparr>)"
  by (simp add: rxLoop_def rxBody_frame_of small_node_fields writeRxDatagramToQueue_def cerr_def
        rxDataQueueSize_def readRxDatagramFromQueue_def rxDataAvailable_def word_le_nat_alt)

text \<open>
  A run of the receive loop keeps what the queue held, in order, and appends behind
  it only datagrams whose \<^verbatim>\<open>jointhread\<close> is false and that \<^verbatim>\<open>isDatagramValid\<close>
  accepts; the queue grows past neither its capacity nor, if it was longer, its length.
\<close>

theorem rxLoop_appends_only_guarded:
  assumes "rxLoop abi rs n = Returns (le, n')"
  shows "\<exists>added. rxqueue n' = rxqueue n @ added
           \<and> list_all (\<lambda>datagram. jointhread datagram = False \<and> isDatagramValid abi datagram) added
           \<and> length (rxqueue n') \<le> max (length (rxqueue n)) (unat (maxqueuesize n))"
  using rxLoop_queue_grows [OF assms] by (simp add: queue_grows_def)

theorem rxLoop_appends_only_guarded_witness:
  "rxLoop SignedChar [RecvDatagram loopback goodbye_frame, RecvDatagram loopback hi_frame] receiver_node
     = Returns (Waiting, receiver_node\<lparr>rxqueue := [hi_datagram]\<rparr>)
   \<and> rxqueue (receiver_node\<lparr>rxqueue := [hi_datagram]\<rparr>) = rxqueue receiver_node @ [hi_datagram]
   \<and> jointhread hi_datagram = False \<and> isDatagramValid SignedChar hi_datagram"
  using rxLoop_appends_only_guarded [of SignedChar
          "[RecvDatagram loopback goodbye_frame, RecvDatagram loopback hi_frame]" receiver_node Waiting
          "receiver_node\<lparr>rxqueue := [hi_datagram]\<rparr>"]
  by (simp add: rxLoop_def rxBody_goodbye_receiver rxBody_hi_receiver valid_hi_datagram)
     (simp add: receiver_node_def hi_datagram_def)

text \<open>
  In every iteration of the receive loop the queue either stays as it was or gets the
  decoded datagram appended, and it is appended only if \<^verbatim>\<open>isDatagramValid\<close>
  accepts it, the queue length is below \<^verbatim>\<open>_maxqueuesize\<close> and its
  \<^verbatim>\<open>jointhread\<close> is false; a decoded frame whose \<^verbatim>\<open>jointhread\<close> is true is
  never enqueued.
\<close>

theorem enqueue_guard:
  assumes "rxBody abi r n = Returns (ctl, n')"
  shows "(rxqueue n' = rxqueue n
          \<or> (\<exists>their_addr d datagram. r = RecvDatagram their_addr d
               \<and> parseDatagram their_addr d new_rxDatagram = Returns (SUCCESS, datagram)
               \<and> isDatagramValid abi datagram \<and> length (rxqueue n) < unat (maxqueuesize n)
               \<and> jointhread datagram = False \<and> rxqueue n' = rxqueue n @ [datagram]))
         \<and> (\<forall>their_addr d error_code datagram.
               r = RecvDatagram their_addr d
               \<and> parseDatagram their_addr d new_rxDatagram = Returns (error_code, datagram)
               \<and> jointhread datagram
               \<longrightarrow> rxqueue n' = rxqueue n)"
proof
  from rxBody_queue [OF assms]
  show "rxqueue n' = rxqueue n
          \<or> (\<exists>their_addr d datagram. r = RecvDatagram their_addr d
               \<and> parseDatagram their_addr d new_rxDatagram = Returns (SUCCESS, datagram)
               \<and> isDatagramValid abi datagram \<and> length (rxqueue n) < unat (maxqueuesize n)
               \<and> jointhread datagram = False \<and> rxqueue n' = rxqueue n @ [datagram])"
    by blast
  from rxBody_queue [OF assms]
  show "\<forall>their_addr d error_code datagram.
               r = RecvDatagram their_addr d
               \<and> parseDatagram their_addr d new_rxDatagram = Returns (error_code, datagram)
               \<and> jointhread datagram
               \<longrightarrow> rxqueue n' = rxqueue n"
    by auto
qed

theorem enqueue_guard_witness:
  "rxBody SignedChar (RecvDatagram loopback goodbye_frame) receiver_node = Returns (Continue, receiver_node)
   \<and> parseDatagram loopback goodbye_frame new_rxDatagram = Returns (SUCCESS, goodbye_datagram)
   \<and> jointhread goodbye_datagram
   \<and> rxBody SignedChar (RecvDatagram loopback hi_frame) receiver_node =
        Returns (Continue, receiver_node\<lparr>rxqueue := [hi_datagram]\<rparr>)
   \<and> parseDatagram loopback hi_frame new_rxDatagram = Returns (SUCCESS, hi_datagram)
   \<and> isDatagramValid SignedChar hi_datagram
   \<and> length (rxqueue receiver_node) < unat (maxqueuesize receiver_node)
   \<and> jointhread hi_datagram = False"
  using enqueue_guard [of SignedChar "RecvDatagram loopback goodbye_frame" receiver_node Continue receiver_node]
        enqueue_guard [of SignedChar "RecvDatagram loopback hi_frame" receiver_node Continue
           "receiver_node\<lparr>rxqueue := [hi_datagram]\<rparr>"]
  by (simp add: rxBody_goodbye_receiver rxBody_hi_receiver parse_goodbye_frame parse_hi_frame valid_hi_datagram)
     (simp add: goodbye_datagram_def hi_datagram_def receiver_node_def)

end
